theory Spec2Isabelle
  imports Complex_Main
begin

section \<open>Python values used by the monitoring engine\<close>

text \<open>
  Exceptions of the source are values. Only the class of an exception matters to the
  handlers of \<^verbatim>\<open>tasks/price_monitor.py\<close> and \<^verbatim>\<open>tasks/reminders.py\<close>:
  \<^verbatim>\<open>except (ValueError, TypeError)\<close> around the date arithmetic and
  \<^verbatim>\<open>except Exception\<close> around each item.
\<close>

datatype pyerr = ValueError | TypeError | AttributeError | RequestError

fun is_value_or_type_error :: "pyerr \<Rightarrow> bool" where
  "is_value_or_type_error ValueError = True"
| "is_value_or_type_error TypeError = True"
| "is_value_or_type_error AttributeError = False"
| "is_value_or_type_error RequestError = False"

text \<open>
  A Python \<^verbatim>\<open>float\<close> is a binary double: a finite value, one of the two infinities, or
  NaN. A finite value is given by the rational it stands for; an operation rounds its
  exact result to the nearest double, ties to the even mantissa, and overflows to an
  infinity. Modelled are the operations the code uses: \<^verbatim>\<open>float('inf')\<close> as the default of
  a missing price, the comparisons \<^verbatim>\<open><\<close> and \<^verbatim>\<open><=\<close> (false whenever NaN takes part),
  the truth value of a float (\<^verbatim>\<open>if x:\<close> is \<^verbatim>\<open>x != 0\<close>), the product and
  \<^verbatim>\<open>round(x, 2)\<close>. The two zeros are one value.
\<close>

datatype pyfloat = Fin rat | PosInf | NegInf | NaN

fun flt_less :: "pyfloat \<Rightarrow> pyfloat \<Rightarrow> bool" where
  "flt_less NaN _ = False"
| "flt_less _ NaN = False"
| "flt_less (Fin a) (Fin b) = (a < b)"
| "flt_less (Fin _) PosInf = True"
| "flt_less (Fin _) NegInf = False"
| "flt_less PosInf _ = False"
| "flt_less NegInf NegInf = False"
| "flt_less NegInf _ = True"

fun flt_le :: "pyfloat \<Rightarrow> pyfloat \<Rightarrow> bool" where
  "flt_le NaN _ = False"
| "flt_le _ NaN = False"
| "flt_le (Fin a) (Fin b) = (a \<le> b)"
| "flt_le (Fin _) PosInf = True"
| "flt_le (Fin _) NegInf = False"
| "flt_le PosInf PosInf = True"
| "flt_le PosInf _ = False"
| "flt_le NegInf _ = True"

text \<open>\<^verbatim>\<open>bool(x)\<close> of a float: everything but zero is true, NaN and the infinities too.\<close>

fun flt_truthy :: "pyfloat \<Rightarrow> bool" where
  "flt_truthy (Fin a) = (a \<noteq> 0)"
| "flt_truthy PosInf = True"
| "flt_truthy NegInf = True"
| "flt_truthy NaN = True"

definition round_half_even :: "rat \<Rightarrow> int" where
  "round_half_even q =
     (let f = \<lfloor>q\<rfloor>; d = q - of_int f in
      if d < 1 / 2 then f
      else if 1 / 2 < d then f + 1
      else if even f then f else f + 1)"

definition pow2 :: "int \<Rightarrow> rat" where
  "pow2 e = (if 0 \<le> e then 2 ^ nat e else 1 / 2 ^ nat (- e))"

text \<open>The number of binary digits of a positive integer.\<close>

function bitlen :: "int \<Rightarrow> int" where
  "bitlen n = (if n \<le> 0 then 0 else 1 + bitlen (n div 2))"
  by pat_completeness auto
termination
  by (relation "measure nat") auto

declare bitlen.simps [simp del]

text \<open>The exponent \<open>e\<close> with \<open>2 ^ e \<le> x < 2 ^ (e + 1)\<close>, for a positive \<open>x\<close>.\<close>

definition floor_log2 :: "rat \<Rightarrow> int" where
  "floor_log2 x =
     (let e = bitlen (fst (quotient_of x)) - bitlen (snd (quotient_of x))
      in if pow2 e \<le> x then e else e - 1)"

text \<open>
  The double nearest to a rational: a mantissa of 53 binary digits, the exponent of the
  leading digit between -1022 (below it the spacing of the subnormal numbers stays) and
  1023 (a result that rounds up to \<open>2 ^ 1024\<close> or lies beyond it is infinite).
\<close>

definition round_to_double :: "rat \<Rightarrow> pyfloat" where
  "round_to_double x =
     (if x = 0 then Fin 0
      else
        (let e = max (floor_log2 \<bar>x\<bar>) (- 1022);
             ulp = pow2 (e - 52);
             m = round_half_even (x / ulp)
         in if 1023 < e \<or> (e = 1023 \<and> 9007199254740992 \<le> \<bar>m\<bar>)
            then (if 0 < x then PosInf else NegInf)
            else Fin (of_int m * ulp)))"

text \<open>\<^verbatim>\<open>x * rate\<close> for a finite rate.\<close>

fun flt_scale :: "pyfloat \<Rightarrow> rat \<Rightarrow> pyfloat" where
  "flt_scale (Fin a) r = round_to_double (a * r)"
| "flt_scale PosInf r = (if 0 < r then PosInf else if r < 0 then NegInf else NaN)"
| "flt_scale NegInf r = (if 0 < r then NegInf else if r < 0 then PosInf else NaN)"
| "flt_scale NaN r = NaN"

text \<open>
  \<^verbatim>\<open>round(x, 2)\<close>: the value of the double is rounded to two decimal places, ties to the
  even neighbour, and the decimal result is converted to the nearest double; NaN and the
  infinities round to themselves.
\<close>

fun py_round2 :: "pyfloat \<Rightarrow> pyfloat" where
  "py_round2 (Fin a) = round_to_double (of_int (round_half_even (a * 100)) / 100)"
| "py_round2 PosInf = PosInf"
| "py_round2 NegInf = NegInf"
| "py_round2 NaN = NaN"

text \<open>
  \<^verbatim>\<open>min(iterable)\<close> keeps the first item and replaces it by every later item that is
  \<^verbatim>\<open><\<close> the one kept; on an empty iterable it raises ValueError.
\<close>

fun py_min :: "pyfloat list \<Rightarrow> pyerr + pyfloat" where
  "py_min [] = Inl ValueError"
| "py_min (x # xs) = Inr (foldl (\<lambda>m v. if flt_less v m then v else m) x xs)"

text \<open>The finite prices of a list of floats.\<close>

definition fin_prices :: "pyfloat list \<Rightarrow> rat set" where
  "fin_prices vs = Fin -` set vs"

text \<open>
  JSON values held in the stored search parameters and in the data of a booking, with
  their truth value: \<^verbatim>\<open>None\<close>, the empty string and zero are false.
\<close>

datatype pyval = PyNone | PyStr string | PyInt int

fun py_truthy :: "pyval \<Rightarrow> bool" where
  "py_truthy PyNone = False"
| "py_truthy (PyStr s) = (s \<noteq> [])"
| "py_truthy (PyInt n) = (n \<noteq> 0)"

text \<open>\<^verbatim>\<open>d.get(key, default)\<close> on a dict given as an association list.\<close>

definition dict_get :: "('k \<times> 'v) list \<Rightarrow> 'k \<Rightarrow> 'v \<Rightarrow> 'v" where
  "dict_get d k dflt = (case map_of d k of None \<Rightarrow> dflt | Some v \<Rightarrow> v)"

section \<open>Records of the store\<close>

datatype AlertType = AlertType_FLIGHT | AlertType_HOTEL

fun AlertType_value :: "AlertType \<Rightarrow> string" where
  "AlertType_value AlertType_FLIGHT = ''Flight''"
| "AlertType_value AlertType_HOTEL = ''Hotel''"

datatype AlertStatus = ACTIVE | TRIGGERED | CANCELLED | EXPIRED

text \<open>
  A point of time is a number of microseconds since a fixed origin; a \<^verbatim>\<open>timedelta\<close> is
  a number of microseconds.
\<close>

type_synonym usec = int

text \<open>
  A datetime is naive (a wall-clock reading) or aware (an instant, with its offset from
  UTC). \<^verbatim>\<open>datetime.now()\<close> is naive. Subtracting or comparing a naive and an aware
  datetime raises TypeError.
\<close>

datatype pydatetime = Naive usec | Aware usec

fun dt_sub :: "pydatetime \<Rightarrow> pydatetime \<Rightarrow> pyerr + usec" where
  "dt_sub (Naive a) (Naive b) = Inr (a - b)"
| "dt_sub (Aware a) (Aware b) = Inr (a - b)"
| "dt_sub (Naive a) (Aware b) = Inl TypeError"
| "dt_sub (Aware a) (Naive b) = Inl TypeError"

fun dt_less :: "pydatetime \<Rightarrow> pydatetime \<Rightarrow> pyerr + bool" where
  "dt_less (Naive a) (Naive b) = Inr (a < b)"
| "dt_less (Aware a) (Aware b) = Inr (a < b)"
| "dt_less (Naive a) (Aware b) = Inl TypeError"
| "dt_less (Aware a) (Naive b) = Inl TypeError"

text \<open>
  The column \<^verbatim>\<open>expires_at\<close> is declared \<^verbatim>\<open>DateTime(timezone=True)\<close>: a store that keeps
  time zones (PostgreSQL, the default of \<^verbatim>\<open>DATABASE_URL\<close>) hands it back aware, one
  that does not (SQLite) hands it back naive, as \<^verbatim>\<open>target_price_input\<close> wrote it.
\<close>

record User =
  user_id :: int
  language :: string

record PriceAlert =
  alert_id :: nat
  alert_user_id :: int
  alert_type :: AlertType
  search_params :: "(string \<times> pyval) list"
  target_price :: pyfloat
  current_price :: "pyfloat option"
  currency :: string
  status :: AlertStatus
  triggered_at :: "usec option"
  expires_at :: "pydatetime option"

datatype BookingType = BookingType_FLIGHT | BookingType_HOTEL | BookingType_TOUR

datatype PaymentStatus = PENDING | COMPLETED | FAILED | REFUNDED

text \<open>\<^verbatim>\<open>booking_data\<close> is the JSON object of the booked offer.\<close>

record Booking =
  booking_id :: nat
  booking_user_id :: int
  booking_type :: BookingType
  booking_reference :: string
  booking_data :: "(string \<times> pyval) list"
  payment_status :: PaymentStatus

record db =
  alerts :: "PriceAlert list"
  users :: "User list"
  bookings :: "Booking list"

text \<open>A quote is the dict of a search result, reduced to its numeric fields.\<close>

type_synonym quote = "(string \<times> pyfloat) list"

record flight_query =
  from_city :: pyval
  to_city :: pyval
  depart_date :: pyval
  return_date :: pyval
  passengers :: pyval

record hotel_query =
  city :: pyval
  checkin_date :: pyval
  checkout_date :: pyval
  rooms :: pyval
  guests :: pyval

text \<open>
  What a tick does to the outside world, in order: the calls of the search provider and
  the calls of \<^verbatim>\<open>NotificationService\<close>. The three \<^verbatim>\<open>send_*\<close> methods catch every
  exception of the transport themselves, so a call never raises into the evaluator.
\<close>

datatype event =
    SearchFlights flight_query
  | SearchHotels hotel_query
  | PriceAlertSent int string pyfloat string
  | FlightReminderSent int pyval int string
  | HotelReminderSent int pyval string

text \<open>
  The collaborators reached over the network are parameters: the two searches of
  \<^verbatim>\<open>TripAPI\<close> (a list of quotes, or an exception) and the exchange rate that
  \<^verbatim>\<open>CurrencyConverter.get_usd_to_etb_rate\<close> returns (or the exception it lets through).
\<close>

record env =
  ENABLE_PRICE_ALERTS :: bool
  search_flights :: "flight_query \<Rightarrow> pyerr + quote list"
  search_hotels :: "hotel_query \<Rightarrow> pyerr + quote list"
  get_usd_to_etb_rate :: "pyerr + rat"

section \<open>services/currency.py\<close>

definition convert_usd_to_etb :: "env \<Rightarrow> pyfloat \<Rightarrow> pyerr + pyfloat" where
  "convert_usd_to_etb e usd_amount =
     (case get_usd_to_etb_rate e of
        Inl err \<Rightarrow> Inl err
      | Inr rate \<Rightarrow> Inr (py_round2 (flt_scale usd_amount rate)))"

section \<open>tasks/price\_monitor.py\<close>

text \<open>\<^verbatim>\<open>db.query(User).filter(User.user_id == uid).first()\<close>\<close>

definition find_user :: "User list \<Rightarrow> int \<Rightarrow> User option" where
  "find_user us uid = find (\<lambda>u. user_id u = uid) us"

text \<open>
  Lines 56 to 59 and 72 to 75: the lowest price of a non-empty result list, converted.
\<close>

definition lowest_price :: "env \<Rightarrow> quote list \<Rightarrow> pyerr + pyfloat option" where
  "lowest_price e results =
     (if results \<noteq> [] then
        (case py_min (map (\<lambda>f. dict_get f ''price_usd'' PosInf) results) of
           Inl err \<Rightarrow> Inl err
         | Inr lowest_price_usd \<Rightarrow>
             (case convert_usd_to_etb e lowest_price_usd of
                Inl err \<Rightarrow> Inl err
              | Inr p \<Rightarrow> Inr (Some p)))
      else Inr None)"

text \<open>
  Lines 43 to 75: the search by alert type. The result is the search call made and either
  the exception raised or the value of \<^verbatim>\<open>current_price\<close> (\<open>None\<close> when the result list is
  empty). The column \<^verbatim>\<open>search_params\<close> is not nullable, and \<^verbatim>\<open>d or {}\<close> is \<^verbatim>\<open>d\<close> for
  every dict \<^verbatim>\<open>d\<close>, the empty one included.
\<close>

definition get_current_price :: "env \<Rightarrow> PriceAlert \<Rightarrow> event list \<times> (pyerr + pyfloat option)" where
  "get_current_price e alert =
     (case alert_type alert of
        AlertType_FLIGHT \<Rightarrow>
          (let sp = search_params alert;
               q = \<lparr>from_city = dict_get sp ''flight_origin'' (PyStr ''''),
                    to_city = dict_get sp ''flight_destination'' (PyStr ''''),
                    depart_date = dict_get sp ''flight_depart_date'' (PyStr ''''),
                    return_date = dict_get sp ''flight_return_date'' PyNone,
                    passengers = dict_get sp ''passengers'' (PyInt 1)\<rparr>
           in ([SearchFlights q],
               (case search_flights e q of
                  Inl err \<Rightarrow> Inl err
                | Inr flights \<Rightarrow> lowest_price e flights)))
      | AlertType_HOTEL \<Rightarrow>
          (let sp = search_params alert;
               q = \<lparr>city = dict_get sp ''hotel_city'' (PyStr ''''),
                    checkin_date = dict_get sp ''hotel_checkin'' (PyStr ''''),
                    checkout_date = dict_get sp ''hotel_checkout'' (PyStr ''''),
                    rooms = dict_get sp ''hotel_rooms'' (PyInt 1),
                    guests = dict_get sp ''guests'' (PyInt 1)\<rparr>
           in ([SearchHotels q],
               (case search_hotels e q of
                  Inl err \<Rightarrow> Inl err
                | Inr hotels \<Rightarrow> lowest_price e hotels))))"

text \<open>
  Lines 77 to 101, for a price that was obtained: the guard \<^verbatim>\<open>if current_price:\<close>, the
  update of the stored price, the comparison with the target, the notification and the
  transition to Triggered.
\<close>

definition update_and_notify ::
  "usec \<Rightarrow> User list \<Rightarrow> PriceAlert \<Rightarrow> pyfloat option \<Rightarrow> PriceAlert \<times> event list" where
  "update_and_notify now us alert cp =
     (case cp of
        None \<Rightarrow> (alert, [])
      | Some p \<Rightarrow>
          if flt_truthy p then
            (let alert1 = alert\<lparr>current_price := Some p\<rparr> in
             if flt_le p (target_price alert) then
               (let lang = (case find_user us (alert_user_id alert) of
                              Some u \<Rightarrow> language u
                            | None \<Rightarrow> ''en'')
                in (alert1\<lparr>status := TRIGGERED, triggered_at := Some now\<rparr>,
                    [PriceAlertSent (alert_user_id alert)
                       (AlertType_value (alert_type alert)) p lang]))
             else (alert1, []))
          else (alert, []))"

text \<open>
  Line 37, \<^verbatim>\<open>alert.expires_at and alert.expires_at < datetime.now()\<close>: a datetime is
  always true, so the first conjunct asks whether the column is set; the comparison
  with the naive \<^verbatim>\<open>datetime.now()\<close> raises for an aware value.
\<close>

definition is_expired :: "usec \<Rightarrow> PriceAlert \<Rightarrow> pyerr + bool" where
  "is_expired now alert =
     (case expires_at alert of
        None \<Rightarrow> Inr False
      | Some t \<Rightarrow> dt_less t (Naive now))"

text \<open>
  The body of the \<^verbatim>\<open>try\<close> for one alert (lines 36 to 101): the events it causes and
  either the exception that leaves it or the alert as it stands afterwards. Every point
  that can raise (the comparison of line 37, the search, the conversion) lies before the
  first assignment to the alert. The two readings of \<^verbatim>\<open>datetime.now()\<close>, on lines 37 and
  98, are one instant \<open>now\<close>.
\<close>

definition monitor_alert ::
  "env \<Rightarrow> usec \<Rightarrow> User list \<Rightarrow> PriceAlert \<Rightarrow> event list \<times> (pyerr + PriceAlert)" where
  "monitor_alert e now us alert =
     (case is_expired now alert of
        Inl err \<Rightarrow> ([], Inl err)
      | Inr expired \<Rightarrow>
          if expired then ([], Inr (alert\<lparr>status := EXPIRED\<rparr>))
          else
            (case get_current_price e alert of
               (evs, Inl err) \<Rightarrow> (evs, Inl err)
             | (evs, Inr cp) \<Rightarrow>
                 (let (alert', sent) = update_and_notify now us alert cp
                  in (evs @ sent, Inr alert'))))"

text \<open>
  \<^verbatim>\<open>except Exception: ... continue\<close> (lines 103 to 105): an alert whose processing
  raised is left as it was.
\<close>

definition guarded_alert ::
  "env \<Rightarrow> usec \<Rightarrow> User list \<Rightarrow> PriceAlert \<Rightarrow> PriceAlert \<times> event list" where
  "guarded_alert e now us alert =
     (case monitor_alert e now us alert of
        (evs, Inl err) \<Rightarrow> (alert, evs)
      | (evs, Inr alert') \<Rightarrow> (alert', evs))"

text \<open>The \<^verbatim>\<open>for alert in active_alerts\<close> loop (line 34).\<close>

fun monitor_loop ::
  "env \<Rightarrow> usec \<Rightarrow> User list \<Rightarrow> PriceAlert list \<Rightarrow> PriceAlert list \<times> event list" where
  "monitor_loop e now us [] = ([], [])"
| "monitor_loop e now us (alert # rest) =
     (let (alert', evs) = guarded_alert e now us alert;
          (rest', evs') = monitor_loop e now us rest
      in (alert' # rest', evs @ evs'))"

text \<open>The query of lines 28 to 30.\<close>

definition active_alerts :: "db \<Rightarrow> PriceAlert list" where
  "active_alerts d = filter (\<lambda>a. status a = ACTIVE) (alerts d)"

text \<open>
  The objects of the query result are the rows themselves: an assignment to one followed
  by \<^verbatim>\<open>db.commit()\<close> changes that row. \<open>write_back\<close> puts the objects, as the loop left
  them, back in the places of the Active rows they were read from.
\<close>

fun write_back :: "PriceAlert list \<Rightarrow> PriceAlert list \<Rightarrow> PriceAlert list" where
  "write_back [] objs = []"
| "write_back (r # rows) objs =
     (if status r = ACTIVE then
        (case objs of
           [] \<Rightarrow> r # write_back rows []
         | obj # objs' \<Rightarrow> obj # write_back rows objs')
      else r # write_back rows objs)"

text \<open>One tick: \<^verbatim>\<open>monitor_prices()\<close>.\<close>

definition monitor_prices :: "env \<Rightarrow> usec \<Rightarrow> db \<Rightarrow> db \<times> event list" where
  "monitor_prices e now d =
     (if \<not> ENABLE_PRICE_ALERTS e then (d, [])
      else
        (let (objs, evs) = monitor_loop e now (users d) (active_alerts d)
         in (d\<lparr>alerts := write_back (alerts d) objs\<rparr>, evs)))"

text \<open>A run of ticks, each with its own environment and its own time.\<close>

fun run_ticks :: "(env \<times> usec) list \<Rightarrow> db \<Rightarrow> db" where
  "run_ticks [] d = d"
| "run_ticks ((e, now) # ts) d = run_ticks ts (fst (monitor_prices e now d))"

section \<open>tasks/reminders.py\<close>

text \<open>
  The two parsers of the standard library are parameters. \<^verbatim>\<open>datetime.fromisoformat\<close>
  gives a naive datetime for a string without an offset and an aware one for a string
  with an offset. \<^verbatim>\<open>datetime.strptime(s, "%Y-%m-%d")\<close> gives midnight of a calendar day,
  naive; its result is the number of that day.
\<close>

record pylib =
  fromisoformat :: "string \<Rightarrow> pyerr + pydatetime"
  strptime_ymd :: "string \<Rightarrow> pyerr + int"

definition usec_per_hour :: int where
  "usec_per_hour = 3600000000"

definition usec_per_day :: int where
  "usec_per_day = 86400000000"

text \<open>\<^verbatim>\<open>departure_str.replace('Z', '+00:00')\<close>\<close>

definition replace_Z :: "string \<Rightarrow> string" where
  "replace_Z s = concat (map (\<lambda>c. if c = CHR ''Z'' then ''+00:00'' else [c]) s)"

text \<open>
  Lines 43 and 44. The number of hours is the exact quotient; a difference that is a
  whole number of microseconds lies on the same side of 23 and of 25 as its
  floating-point quotient does.
\<close>

definition hours_until_flight :: "pylib \<Rightarrow> usec \<Rightarrow> string \<Rightarrow> pyerr + rat" where
  "hours_until_flight lib now departure_str =
     (case fromisoformat lib (replace_Z departure_str) of
        Inl err \<Rightarrow> Inl err
      | Inr departure_time \<Rightarrow>
          (case dt_sub departure_time (Naive now) of
             Inl err \<Rightarrow> Inl err
           | Inr delta \<Rightarrow> Inr (of_int delta / of_int usec_per_hour)))"

text \<open>
  Lines 67 and 68. \<^verbatim>\<open>timedelta.days\<close> is the whole number of days of the difference,
  rounded towards minus infinity.
\<close>

definition days_until_checkin :: "pylib \<Rightarrow> usec \<Rightarrow> string \<Rightarrow> pyerr + int" where
  "days_until_checkin lib now checkin_str =
     (case strptime_ymd lib checkin_str of
        Inl err \<Rightarrow> Inl err
      | Inr day \<Rightarrow> Inr ((day * usec_per_day - now) div usec_per_day))"

text \<open>
  The inner handlers, \<^verbatim>\<open>except (ValueError, TypeError)\<close>: these two are logged and
  dropped, any other exception goes on to the handler of the booking.
\<close>

definition inner_except :: "pyerr \<Rightarrow> event list \<times> pyerr option" where
  "inner_except err = (if is_value_or_type_error err then ([], None) else ([], Some err))"

text \<open>
  Lines 36 to 58. A departure time that is not a string has no \<^verbatim>\<open>replace\<close>: the
  AttributeError is not one of the two classes of line 57.
\<close>

definition flight_reminder ::
  "pylib \<Rightarrow> usec \<Rightarrow> Booking \<Rightarrow> string \<Rightarrow> event list \<times> pyerr option" where
  "flight_reminder lib now booking lang =
     (case map_of (booking_data booking) ''departure_time'' of
        None \<Rightarrow> ([], None)
      | Some departure_str \<Rightarrow>
          if \<not> py_truthy departure_str then ([], None)
          else
            (case departure_str of
               PyStr s \<Rightarrow>
                 (case hours_until_flight lib now s of
                    Inl err \<Rightarrow> inner_except err
                  | Inr h \<Rightarrow>
                      if 23 \<le> h \<and> h \<le> 25 then
                        ([FlightReminderSent (booking_user_id booking)
                            (dict_get (booking_data booking) ''to_city''
                               (PyStr ''your destination''))
                            24 lang], None)
                      else ([], None))
             | PyInt n \<Rightarrow> ([], Some AttributeError)
             | PyNone \<Rightarrow> ([], Some AttributeError)))"

text \<open>
  Lines 60 to 81. \<^verbatim>\<open>strptime\<close> of a value that is not a string raises TypeError, which
  line 80 catches.
\<close>

definition hotel_reminder ::
  "pylib \<Rightarrow> usec \<Rightarrow> Booking \<Rightarrow> string \<Rightarrow> event list \<times> pyerr option" where
  "hotel_reminder lib now booking lang =
     (case map_of (booking_data booking) ''checkin_date'' of
        None \<Rightarrow> ([], None)
      | Some checkin_str \<Rightarrow>
          if \<not> py_truthy checkin_str then ([], None)
          else
            (case checkin_str of
               PyStr s \<Rightarrow>
                 (case days_until_checkin lib now s of
                    Inl err \<Rightarrow> inner_except err
                  | Inr n \<Rightarrow>
                      if n = 1 then
                        ([HotelReminderSent (booking_user_id booking)
                            (dict_get (booking_data booking) ''hotel_name''
                               (PyStr ''your hotel''))
                            lang], None)
                      else ([], None))
             | PyInt n \<Rightarrow> inner_except TypeError
             | PyNone \<Rightarrow> inner_except TypeError))"

text \<open>
  The body of the \<^verbatim>\<open>try\<close> for one booking (lines 30 to 81): the reminders sent, and
  the exception that reaches the handler of line 83, if any.
\<close>

definition check_booking ::
  "pylib \<Rightarrow> usec \<Rightarrow> User list \<Rightarrow> Booking \<Rightarrow> event list \<times> pyerr option" where
  "check_booking lib now us booking =
     (case find_user us (booking_user_id booking) of
        None \<Rightarrow> ([], None)
      | Some user \<Rightarrow>
          (case booking_type booking of
             BookingType_FLIGHT \<Rightarrow> flight_reminder lib now booking (language user)
           | BookingType_HOTEL \<Rightarrow> hotel_reminder lib now booking (language user)
           | BookingType_TOUR \<Rightarrow> ([], None)))"

text \<open>The \<^verbatim>\<open>for booking in bookings\<close> loop; line 83 drops whatever exception is left.\<close>

fun reminder_loop :: "pylib \<Rightarrow> usec \<Rightarrow> User list \<Rightarrow> Booking list \<Rightarrow> event list" where
  "reminder_loop lib now us [] = []"
| "reminder_loop lib now us (booking # rest) =
     fst (check_booking lib now us booking) @ reminder_loop lib now us rest"

text \<open>The query of lines 22 to 24.\<close>

definition completed_bookings :: "db \<Rightarrow> Booking list" where
  "completed_bookings d = filter (\<lambda>b. payment_status b = COMPLETED) (bookings d)"

text \<open>One tick: \<^verbatim>\<open>send_reminders()\<close>. It changes no record.\<close>

definition send_reminders :: "pylib \<Rightarrow> usec \<Rightarrow> db \<Rightarrow> event list" where
  "send_reminders lib now d = reminder_loop lib now (users d) (completed_bookings d)"

section \<open>The two scheduler loops\<close>












section \<open>Sample data\<close>

text \<open>
  An environment whose flight search returns the given quotes whatever the query, with
  the fallback rate of \<^verbatim>\<open>config/settings.py\<close>, 55.5 birr to the dollar.
\<close>

definition fixed_env :: "quote list \<Rightarrow> env" where
  "fixed_env quotes =
     \<lparr>ENABLE_PRICE_ALERTS = True,
      search_flights = (\<lambda>q. Inr quotes),
      search_hotels = (\<lambda>q. Inr []),
      get_usd_to_etb_rate = Inr (111 / 2)\<rparr>"

text \<open>The same with a hotel search that fails.\<close>

definition hotels_down_env :: "quote list \<Rightarrow> env" where
  "hotels_down_env quotes = (fixed_env quotes)\<lparr>search_hotels := (\<lambda>q. Inl RequestError)\<rparr>"

text \<open>
  An Active flight alert with a target of 40000 birr that expires thirty days after the
  origin of time, read back naive.
\<close>

definition sample_alert :: PriceAlert where
  "sample_alert =
     \<lparr>alert_id = 1, alert_user_id = 7, alert_type = AlertType_FLIGHT,
      search_params = [(''flight_origin'', PyStr ''ADD''), (''flight_destination'', PyStr ''NBO'')],
      target_price = Fin 40000, current_price = None, currency = ''ETB'',
      status = ACTIVE, triggered_at = None,
      expires_at = Some (Naive (30 * usec_per_day))\<rparr>"

text \<open>
  The same alert with an expiry read back aware: 1 May 2025, 00:00 UTC, day 20209
  after 1 January 1970.
\<close>

definition aware_alert :: PriceAlert where
  "aware_alert = sample_alert\<lparr>alert_id := 4, expires_at := Some (Aware (20209 * usec_per_day))\<rparr>"

definition sample_query :: flight_query where
  "sample_query =
     \<lparr>from_city = PyStr ''ADD'', to_city = PyStr ''NBO'', depart_date = PyStr [],
      return_date = PyNone, passengers = PyInt 1\<rparr>"

definition sample_hotel_alert :: PriceAlert where
  "sample_hotel_alert =
     sample_alert\<lparr>alert_id := 3, alert_type := AlertType_HOTEL,
       search_params := [(''hotel_city'', PyStr ''Addis Ababa'')]\<rparr>"

definition sample_hotel_query :: hotel_query where
  "sample_hotel_query =
     \<lparr>city = PyStr ''Addis Ababa'', checkin_date = PyStr [], checkout_date = PyStr [],
      rooms = PyInt 1, guests = PyInt 1\<rparr>"

definition sample_user :: User where
  "sample_user = \<lparr>user_id = 7, language = ''am''\<rparr>"

text \<open>A table with a Cancelled alert in front of an Active one.\<close>

definition sample_db :: db where
  "sample_db =
     \<lparr>alerts = [sample_alert\<lparr>alert_id := 2, status := CANCELLED\<rparr>, sample_alert],
      users = [sample_user], bookings = []\<rparr>"

text \<open>
  The two parsers on the strings of the examples: 2 June 2025 is day 20241 after
  1 January 1970, and 08:00 on it is eight hours later.
\<close>

definition sample_lib :: pylib where
  "sample_lib =
     \<lparr>fromisoformat = (\<lambda>s.
        if s = ''2025-06-02T08:00:00+00:00''
          then Inr (Aware (20241 * usec_per_day + 8 * usec_per_hour))
        else if s = ''2025-06-02T08:00:00''
          then Inr (Naive (20241 * usec_per_day + 8 * usec_per_hour))
        else Inl ValueError),
      strptime_ymd = (\<lambda>s.
        if s = ''2025-06-01'' then Inr 20240
        else if s = ''2025-06-02'' then Inr 20241
        else if s = ''2025-06-03'' then Inr 20242
        else Inl ValueError)\<rparr>"

text \<open>Completed bookings of user 7 (and one of a user the store does not know).\<close>

definition flight_booking :: "pyval \<Rightarrow> Booking" where
  "flight_booking departure =
     \<lparr>booking_id = 1, booking_user_id = 7, booking_type = BookingType_FLIGHT,
      booking_reference = ''FL0000AAAA'',
      booking_data = [(''departure_time'', departure), (''to_city'', PyStr ''NBO'')],
      payment_status = COMPLETED\<rparr>"

definition hotel_booking :: "pyval \<Rightarrow> Booking" where
  "hotel_booking checkin =
     \<lparr>booking_id = 2, booking_user_id = 7, booking_type = BookingType_HOTEL,
      booking_reference = ''HT0000BBBB'',
      booking_data = [(''checkin_date'', checkin), (''hotel_name'', PyStr ''Skylight Hotel'')],
      payment_status = COMPLETED\<rparr>"

definition orphan_booking :: Booking where
  "orphan_booking = (hotel_booking (PyStr ''2025-06-02''))\<lparr>booking_id := 3, booking_user_id := 99\<rparr>"

text \<open>
  A store whose first Active alert is a hotel alert and whose first Completed booking
  has a number as departure time, each followed by a well-formed item.
\<close>

definition failing_db :: db where
  "failing_db =
     \<lparr>alerts = [sample_hotel_alert, sample_alert],
      users = [sample_user],
      bookings = [flight_booking (PyInt 1748851200), hotel_booking (PyStr ''2025-06-02'')]\<rparr>"

section \<open>Unfolding the definitions\<close>

lemmas sample_defs =
  fixed_env_def sample_alert_def sample_query_def sample_user_def usec_per_day_def
  usec_per_hour_def

lemmas reminder_eval_defs =
  check_booking_def flight_reminder_def hotel_reminder_def hours_until_flight_def
  days_until_checkin_def inner_except_def replace_Z_def dict_get_def find_user_def

lemmas sample_booking_defs =
  sample_lib_def flight_booking_def hotel_booking_def sample_user_def usec_per_day_def
  usec_per_hour_def

section \<open>Conversions of the sample prices\<close>

lemma convert_zero:
  "convert_usd_to_etb e (Fin 0) =
     (case get_usd_to_etb_rate e of Inl err \<Rightarrow> Inl err | Inr r \<Rightarrow> Inr (Fin 0))"
  by (simp add: convert_usd_to_etb_def round_to_double_def round_half_even_def
      split: sum.splits)

lemma convert_infinity:
  "get_usd_to_etb_rate e = Inr (111 / 2) \<Longrightarrow> convert_usd_to_etb e PosInf = Inr PosInf"
  by (simp add: convert_usd_to_etb_def)

lemma round_95: "py_round2 (flt_scale (Fin 95) (111 / 2)) = Fin (10545 / 2)"
  by code_simp

lemma convert_95:
  "get_usd_to_etb_rate e = Inr (111 / 2) \<Longrightarrow>
     convert_usd_to_etb e (Fin 95) = Inr (Fin (10545 / 2))"
  by (simp only: convert_usd_to_etb_def sum.case round_95)

text \<open>
  A price of 1.01 dollars is the double next to 1.01; its product with 55.5 lies below
  56.055 and rounds to the double next to 56.05.
\<close>

lemma round_1_01:
  "round_to_double (101 / 100) = Fin (4548635623644201 / 4503599627370496) \<and>
   py_round2 (flt_scale (Fin (4548635623644201 / 4503599627370496)) (111 / 2))
     = round_to_double (5605 / 100)"
  by code_simp

lemmas alert_eval_defs =
  monitor_alert_def is_expired_def get_current_price_def lowest_price_def
  update_and_notify_def guarded_alert_def dict_get_def find_user_def
  convert_zero convert_95 convert_infinity

section \<open>The alert loop as a map over the rows\<close>

lemma monitor_loop_eq:
  "monitor_loop e now us xs =
     (map (\<lambda>a. fst (guarded_alert e now us a)) xs,
      concat (map (\<lambda>a. snd (guarded_alert e now us a)) xs))"
  by (induction xs) (simp_all add: split_beta)

lemma write_back_map:
  "write_back rows (map f (filter (\<lambda>a. status a = ACTIVE) rows)) =
     map (\<lambda>r. if status r = ACTIVE then f r else r) rows"
  by (induction rows) simp_all

lemma monitor_prices_alerts:
  "alerts (fst (monitor_prices e now d)) =
     map (\<lambda>r. if ENABLE_PRICE_ALERTS e \<and> status r = ACTIVE
               then fst (guarded_alert e now (users d) r) else r) (alerts d)"
  by (simp add: monitor_prices_def monitor_loop_eq active_alerts_def write_back_map)

lemma monitor_prices_events:
  "snd (monitor_prices e now d) =
     (if ENABLE_PRICE_ALERTS e
      then concat (map (\<lambda>a. snd (guarded_alert e now (users d) a)) (active_alerts d))
      else [])"
  by (simp add: monitor_prices_def monitor_loop_eq)

lemma update_and_notify_status:
  "status (fst (update_and_notify now us a cp)) = status a \<or>
   status (fst (update_and_notify now us a cp)) = TRIGGERED"
  by (simp add: update_and_notify_def Let_def split: option.splits)

lemma guarded_alert_status:
  "status (fst (guarded_alert e now us a)) = status a \<or>
   status (fst (guarded_alert e now us a)) = EXPIRED \<or>
   status (fst (guarded_alert e now us a)) = TRIGGERED"
  using update_and_notify_status [of now us a]
  by (auto simp: guarded_alert_def monitor_alert_def split_beta
      split: prod.splits sum.splits if_splits)

lemma run_ticks_terminal:
  "i < length (alerts d) \<Longrightarrow> status (alerts d ! i) \<noteq> ACTIVE \<Longrightarrow>
     alerts (run_ticks ts d) ! i = alerts d ! i"
  by (induction ts d rule: run_ticks.induct) (simp_all add: monitor_prices_alerts)

section \<open>Expiry\<close>

text \<open>
  An alert whose expiry is read back naive and lies before the evaluation time leaves its
  evaluation with the status Expired and nothing else changed, and the evaluation causes
  no event: no search call and no notification.
\<close>

lemma monitor_alert_expired:
  "expires_at a = Some (Naive t) \<Longrightarrow> t < now \<Longrightarrow>
     monitor_alert e now us a = ([], Inr (a\<lparr>status := EXPIRED\<rparr>))"
  by (simp add: monitor_alert_def is_expired_def)

lemma monitor_prices_expired:
  "expires_at a = Some (Naive t) \<Longrightarrow> t < now \<Longrightarrow> ENABLE_PRICE_ALERTS e \<Longrightarrow>
   i < length (alerts d) \<Longrightarrow> alerts d ! i = a \<Longrightarrow> status a = ACTIVE \<Longrightarrow>
     alerts (fst (monitor_prices e now d)) ! i = a\<lparr>status := EXPIRED\<rparr>"
  by (simp add: monitor_alert_expired guarded_alert_def monitor_prices_alerts)

text \<open>An alert whose expiry is read back aware raises in the comparison of line 37.\<close>

lemma monitor_alert_aware_expiry:
  "expires_at a = Some (Aware t) \<Longrightarrow> monitor_alert e now us a = ([], Inl TypeError)"
  by (simp add: monitor_alert_def is_expired_def)

text \<open>
  Claim C5. The claim says that every Active alert whose expiry is set and lies in the
  past is set to Expired by the tick. The column is declared with a time zone, so the
  default store hands the expiry back aware; line 37 compares it with the naive
  \<^verbatim>\<open>datetime.now()\<close>, which raises TypeError, and the handler of line 103 skips the
  alert. The sample alert with an expiry of 1 May 2025, 00:00 UTC, is left as it was by
  its evaluation at every time, and a tick on 1 June 2025 at 10:00, a month after the
  expiry, leaves the table as it was: the alert is still Active.
\<close>

theorem aware_expiry_is_never_reached:
  "(\<forall>now. monitor_alert (fixed_env [[(''price_usd'', Fin 95)]]) now [sample_user] aware_alert
            = ([], Inl TypeError)) \<and>
   (\<forall>now. guarded_alert (fixed_env [[(''price_usd'', Fin 95)]]) now [sample_user] aware_alert
            = (aware_alert, [])) \<and>
   monitor_prices (fixed_env [[(''price_usd'', Fin 95)]])
       (20240 * usec_per_day + 10 * usec_per_hour)
       \<lparr>alerts = [aware_alert], users = [sample_user], bookings = []\<rparr>
     = (\<lparr>alerts = [aware_alert], users = [sample_user], bookings = []\<rparr>, []) \<and>
   status aware_alert = ACTIVE \<and>
   expires_at aware_alert = Some (Aware (20209 * usec_per_day))"
  by (simp add: monitor_prices_def active_alerts_def monitor_alert_def is_expired_def
      guarded_alert_def aware_alert_def sample_alert_def)

section \<open>Terminal states\<close>

text \<open>
  Claim C8. The evaluation set of a tick holds Active alerts only. A row that is not
  Active is the same after the tick and is not in the evaluation set of the next one; a
  row that is Active after the tick was Active before it; and a status that a tick
  changes was Active and becomes Expired or Triggered. Over any run of ticks a row that
  is not Active stays as it is and stays out of the evaluation set.
\<close>

theorem terminal_alerts_stay_as_they_are:
  "(\<forall>a \<in> set (active_alerts d). status a = ACTIVE) \<and>
   length (alerts (fst (monitor_prices e now d))) = length (alerts d) \<and>
   (\<forall>i < length (alerts d).
      (status (alerts d ! i) \<noteq> ACTIVE \<longrightarrow>
         alerts (fst (monitor_prices e now d)) ! i = alerts d ! i \<and>
         alerts d ! i \<notin> set (active_alerts (fst (monitor_prices e now d)))) \<and>
      (status (alerts (fst (monitor_prices e now d)) ! i) = ACTIVE \<longrightarrow>
         status (alerts d ! i) = ACTIVE) \<and>
      (status (alerts (fst (monitor_prices e now d)) ! i) \<noteq> status (alerts d ! i) \<longrightarrow>
         status (alerts d ! i) = ACTIVE \<and>
         (status (alerts (fst (monitor_prices e now d)) ! i) = EXPIRED \<or>
          status (alerts (fst (monitor_prices e now d)) ! i) = TRIGGERED))) \<and>
   (\<forall>ts. \<forall>i < length (alerts d).
      status (alerts d ! i) \<noteq> ACTIVE \<longrightarrow>
        alerts (run_ticks ts d) ! i = alerts d ! i \<and>
        alerts d ! i \<notin> set (active_alerts (run_ticks ts d)))"
proof -
  have eval_set: "\<forall>a \<in> set (active_alerts d). status a = ACTIVE"
    by (simp add: active_alerts_def)
  have len: "length (alerts (fst (monitor_prices e now d))) = length (alerts d)"
    by (simp add: monitor_prices_alerts)
  have one_tick: "\<forall>i < length (alerts d).
      (status (alerts d ! i) \<noteq> ACTIVE \<longrightarrow>
         alerts (fst (monitor_prices e now d)) ! i = alerts d ! i \<and>
         alerts d ! i \<notin> set (active_alerts (fst (monitor_prices e now d)))) \<and>
      (status (alerts (fst (monitor_prices e now d)) ! i) = ACTIVE \<longrightarrow>
         status (alerts d ! i) = ACTIVE) \<and>
      (status (alerts (fst (monitor_prices e now d)) ! i) \<noteq> status (alerts d ! i) \<longrightarrow>
         status (alerts d ! i) = ACTIVE \<and>
         (status (alerts (fst (monitor_prices e now d)) ! i) = EXPIRED \<or>
          status (alerts (fst (monitor_prices e now d)) ! i) = TRIGGERED))"
  proof (intro allI impI)
    fix i assume i: "i < length (alerts d)"
    let ?r = "alerts d ! i"
    let ?r' = "alerts (fst (monitor_prices e now d)) ! i"
    have r': "?r' = (if ENABLE_PRICE_ALERTS e \<and> status ?r = ACTIVE
                     then fst (guarded_alert e now (users d) ?r) else ?r)"
      using i by (simp add: monitor_prices_alerts)
    have g: "status (fst (guarded_alert e now (users d) ?r)) = status ?r \<or>
             status (fst (guarded_alert e now (users d) ?r)) = EXPIRED \<or>
             status (fst (guarded_alert e now (users d) ?r)) = TRIGGERED"
      by (rule guarded_alert_status)
    show "(status ?r \<noteq> ACTIVE \<longrightarrow>
             ?r' = ?r \<and> ?r \<notin> set (active_alerts (fst (monitor_prices e now d)))) \<and>
          (status ?r' = ACTIVE \<longrightarrow> status ?r = ACTIVE) \<and>
          (status ?r' \<noteq> status ?r \<longrightarrow>
             status ?r = ACTIVE \<and> (status ?r' = EXPIRED \<or> status ?r' = TRIGGERED))"
      using g unfolding r' by (auto simp: active_alerts_def)
  qed
  have many: "\<forall>ts. \<forall>i < length (alerts d).
      status (alerts d ! i) \<noteq> ACTIVE \<longrightarrow>
        alerts (run_ticks ts d) ! i = alerts d ! i \<and>
        alerts d ! i \<notin> set (active_alerts (run_ticks ts d))"
    by (simp add: run_ticks_terminal active_alerts_def)
  from eval_set len one_tick many show ?thesis by blast
qed

theorem terminal_alerts_witness:
  "sample_alert \<in> set (active_alerts sample_db) \<and>
   status sample_alert = ACTIVE \<and>
   0 < length (alerts sample_db) \<and>
   status (alerts sample_db ! 0) = CANCELLED \<and>
   alerts (fst (monitor_prices (fixed_env [[(''price_usd'', Fin 95)]]) 0 sample_db)) ! 0
     = alerts sample_db ! 0 \<and>
   1 < length (alerts sample_db) \<and>
   status (alerts (fst (monitor_prices (fixed_env [[(''price_usd'', Fin 95)]]) 0 sample_db)) ! 1)
     = TRIGGERED \<and>
   status (alerts sample_db ! 1) = ACTIVE \<and>
   alerts (run_ticks [(fixed_env [[(''price_usd'', Fin 95)]], 0),
                      (fixed_env [[(''price_usd'', Fin 95)]], 1)] sample_db) ! 0
     = alerts sample_db ! 0 \<and>
   alerts sample_db ! 0
     \<notin> set (active_alerts (run_ticks [(fixed_env [[(''price_usd'', Fin 95)]], 0),
                                        (fixed_env [[(''price_usd'', Fin 95)]], 1)] sample_db))"
proof -
  let ?e = "fixed_env [[(''price_usd'', Fin 95)]]"
  have mem: "sample_alert \<in> set (active_alerts sample_db)"
    by (simp add: active_alerts_def sample_db_def sample_alert_def)
  have len: "0 < length (alerts sample_db)" "1 < length (alerts sample_db)"
    by (simp_all add: sample_db_def)
  have st: "status (alerts sample_db ! 0) = CANCELLED"
    by (simp add: sample_db_def)
  then have na: "status (alerts sample_db ! 0) \<noteq> ACTIVE"
    by simp
  have trig: "status (alerts (fst (monitor_prices ?e 0 sample_db)) ! 1) = TRIGGERED"
    by (simp add: monitor_prices_def active_alerts_def sample_db_def alert_eval_defs sample_defs)
  note inst = terminal_alerts_stay_as_they_are [of sample_db ?e 0]
  from inst mem have act: "status sample_alert = ACTIVE"
    by blast
  from inst len(1) na have one:
    "alerts (fst (monitor_prices ?e 0 sample_db)) ! 0 = alerts sample_db ! 0"
    by blast
  have "status (alerts sample_db ! 1) = ACTIVE"
    by (simp add: sample_db_def sample_alert_def)
  with trig have changed:
    "status (alerts (fst (monitor_prices ?e 0 sample_db)) ! 1) \<noteq> status (alerts sample_db ! 1)"
    by simp
  from inst len(2) changed have was: "status (alerts sample_db ! 1) = ACTIVE"
    by blast
  from inst len(1) na have many:
    "alerts (run_ticks [(?e, 0), (?e, 1)] sample_db) ! 0 = alerts sample_db ! 0 \<and>
     alerts sample_db ! 0 \<notin> set (active_alerts (run_ticks [(?e, 0), (?e, 1)] sample_db))"
    by blast
  from mem act len st one trig was many show ?thesis by blast
qed

section \<open>Price comparison\<close>

lemma monitor_alert_trigger:
  assumes "is_expired now a = Inr False" and "get_current_price e a = (evs, Inr (Some p))"
      and "flt_truthy p" and "flt_le p (target_price a)"
  shows "monitor_alert e now us a =
     (evs @ [PriceAlertSent (alert_user_id a) (AlertType_value (alert_type a)) p
               (case find_user us (alert_user_id a) of Some u \<Rightarrow> language u | None \<Rightarrow> ''en'')],
      Inr (a\<lparr>current_price := Some p, status := TRIGGERED, triggered_at := Some now\<rparr>))"
  using assms by (simp add: monitor_alert_def update_and_notify_def)

lemma monitor_alert_above_target:
  assumes "is_expired now a = Inr False" and "get_current_price e a = (evs, Inr (Some p))"
      and "flt_truthy p" and "\<not> flt_le p (target_price a)"
  shows "monitor_alert e now us a = (evs, Inr (a\<lparr>current_price := Some p\<rparr>))"
  using assms by (simp add: monitor_alert_def update_and_notify_def)

lemma monitor_alert_zero_price:
  assumes "is_expired now a = Inr False" and "get_current_price e a = (evs, Inr (Some (Fin 0)))"
  shows "monitor_alert e now us a = (evs, Inr a)"
  using assms by (simp add: monitor_alert_def update_and_notify_def)

text \<open>
  The scenario of the specification: quotes of 120 and 95 dollars at 55.5 birr to the
  dollar against a target of 40000 birr.
\<close>

lemma scenario_120_95:
  "monitor_alert (fixed_env [[(''price_usd'', Fin 120)], [(''price_usd'', Fin 95)]]) 0
       [sample_user] sample_alert =
     ([SearchFlights sample_query, PriceAlertSent 7 ''Flight'' (Fin (10545 / 2)) ''am''],
      Inr (sample_alert\<lparr>current_price := Some (Fin (10545 / 2)), status := TRIGGERED,
             triggered_at := Some 0\<rparr>))"
  by (simp add: alert_eval_defs sample_defs)

text \<open>
  Claim C1. The claim asks for one notification and the transition to Triggered whenever
  the lowest converted price is at most the target. A quote of 0 dollars converts to
  0 birr, which is at most the target of 40000, yet the guard \<^verbatim>\<open>if current_price:\<close> of
  line 78 is false for 0.0: the evaluation of the Active, unexpired sample alert calls the
  search and leaves the alert as it was, with no notification.
\<close>

theorem zero_price_alert_is_not_triggered:
  "status sample_alert = ACTIVE \<and>
   is_expired 0 sample_alert = Inr False \<and>
   lowest_price (fixed_env [[(''price_usd'', Fin 0)]]) [[(''price_usd'', Fin 0)]]
     = Inr (Some (Fin 0)) \<and>
   flt_le (Fin 0) (target_price sample_alert) \<and>
   monitor_alert (fixed_env [[(''price_usd'', Fin 0)]]) 0 [sample_user] sample_alert
     = ([SearchFlights sample_query], Inr sample_alert)"
  by (simp add: alert_eval_defs sample_defs)

text \<open>
  Claim C3. The claim asks for the converted price to be stored on every tick that
  obtains quotes, a price of 0 included. A tick over the sample alert with one quote of
  0 dollars leaves the table as it was: \<^verbatim>\<open>current_price\<close> is still unset.
\<close>

theorem zero_price_is_not_stored:
  "monitor_prices (fixed_env [[(''price_usd'', Fin 0)]]) 0
       \<lparr>alerts = [sample_alert], users = [sample_user], bookings = []\<rparr>
     = (\<lparr>alerts = [sample_alert], users = [sample_user], bookings = []\<rparr>,
        [SearchFlights sample_query]) \<and>
   current_price sample_alert = None"
  by (simp add: monitor_prices_def active_alerts_def alert_eval_defs sample_defs)

section \<open>Quotes without a price\<close>

lemma finite_fin_prices: "finite (fin_prices vs)"
  unfolding fin_prices_def by (rule finite_vimageI) (simp_all add: inj_on_def)

lemma fin_prices_snoc:
  "fin_prices (vs @ [Fin q]) = insert q (fin_prices vs)"
  "fin_prices (vs @ [PosInf]) = fin_prices vs"
  by (auto simp: fin_prices_def)

lemma py_min_fold:
  assumes "\<forall>v \<in> set (x # vs). v = PosInf \<or> (\<exists>q. v = Fin q)"
  shows "foldl (\<lambda>m v. if flt_less v m then v else m) x vs =
         (if fin_prices (x # vs) = {} then PosInf else Fin (Min (fin_prices (x # vs))))"
  using assms
proof (induction vs rule: rev_induct)
  case Nil
  then show ?case by (auto simp: fin_prices_def vimage_def)
next
  case (snoc v vs)
  let ?m = "foldl (\<lambda>m v. if flt_less v m then v else m) x vs"
  have IH: "?m = (if fin_prices (x # vs) = {} then PosInf else Fin (Min (fin_prices (x # vs))))"
    using snoc by simp
  have fin: "finite (fin_prices (x # vs))" by (rule finite_fin_prices)
  from snoc.prems have "v = PosInf \<or> (\<exists>q. v = Fin q)" by simp
  then show ?case
  proof
    assume v: "v = PosInf"
    have "fin_prices (x # vs @ [v]) = fin_prices (x # vs)"
      using fin_prices_snoc(2) [of "x # vs"] v by simp
    with IH v show ?thesis by simp
  next
    assume "\<exists>q. v = Fin q"
    then obtain q where v: "v = Fin q" ..
    have s: "fin_prices (x # vs @ [v]) = insert q (fin_prices (x # vs))"
      using fin_prices_snoc(1) [of "x # vs" q] v by simp
    show ?thesis
    proof (cases "fin_prices (x # vs) = {}")
      case True
      with IH v s show ?thesis by simp
    next
      case False
      obtain M where M: "Min (fin_prices (x # vs)) = M" by simp
      have "Min (insert q (fin_prices (x # vs))) = min q (Min (fin_prices (x # vs)))"
        using fin False by (rule Min_insert)
      then have "Min (insert q (fin_prices (x # vs))) = min q M"
        unfolding M .
      moreover have "foldl (\<lambda>m v. if flt_less v m then v else m) x (vs @ [v]) = Fin (min q M)"
        using IH False v M by (simp add: min_def)
      ultimately show ?thesis using s by simp
    qed
  qed
qed

text \<open>
  When the priced quotes carry finite prices and there is at least one, the lowest price
  is the minimum over the priced quotes.
\<close>

lemma lowest_price_usd_is_min_of_priced:
  assumes "\<forall>f \<in> set quotes. \<forall>p. map_of f ''price_usd'' = Some p \<longrightarrow> (\<exists>q. p = Fin q)"
      and "map_of f0 ''price_usd'' = Some (Fin q0)" and "f0 \<in> set quotes"
  shows "py_min (map (\<lambda>f. dict_get f ''price_usd'' PosInf) quotes) =
         Inr (Fin (Min {q. \<exists>f \<in> set quotes. map_of f ''price_usd'' = Some (Fin q)}))"
proof -
  let ?g = "\<lambda>f. dict_get f ''price_usd'' PosInf"
  from assms(3) obtain f fs where q: "quotes = f # fs" by (cases quotes) auto
  have all: "\<forall>v \<in> set (?g f # map ?g fs). v = PosInf \<or> (\<exists>q. v = Fin q)"
    using assms(1) unfolding q by (auto simp: dict_get_def split: option.splits)
  have mem: "(Fin q \<in> set (map ?g quotes)) =
        (\<exists>f \<in> set quotes. map_of f ''price_usd'' = Some (Fin q))" for q
  proof
    assume "Fin q \<in> set (map ?g quotes)"
    then obtain f where "f \<in> set quotes" and "?g f = Fin q" by auto
    then show "\<exists>f \<in> set quotes. map_of f ''price_usd'' = Some (Fin q)"
      by (cases "map_of f ''price_usd''") (auto simp: dict_get_def)
  next
    assume "\<exists>f \<in> set quotes. map_of f ''price_usd'' = Some (Fin q)"
    then obtain f where "f \<in> set quotes" and "?g f = Fin q" by (auto simp: dict_get_def)
    then show "Fin q \<in> set (map ?g quotes)" by force
  qed
  have set_eq: "fin_prices (?g f # map ?g fs) =
        {q. \<exists>f \<in> set quotes. map_of f ''price_usd'' = Some (Fin q)}"
    using mem unfolding q fin_prices_def by auto
  have "q0 \<in> {q. \<exists>f \<in> set quotes. map_of f ''price_usd'' = Some (Fin q)}"
    using assms(2,3) by blast
  with set_eq have ne: "fin_prices (?g f # map ?g fs) \<noteq> {}" by auto
  from py_min_fold [OF all] ne set_eq show ?thesis unfolding q by simp
qed

text \<open>
  Claim C4. The claim says that a quote without a price never determines the stored
  price, also when no quote of the list has one. With two quotes that carry no
  \<^verbatim>\<open>price_usd\<close> the minimum is the default \<^verbatim>\<open>float('inf')\<close>, its conversion is infinite and
  true, and the evaluation stores infinity as the current price of the alert.
\<close>

theorem unpriced_quotes_store_infinity:
  "monitor_alert (fixed_env [[(''stops'', Fin 0)], [(''stops'', Fin 1)]]) 0 [sample_user]
       sample_alert
     = ([SearchFlights sample_query], Inr (sample_alert\<lparr>current_price := Some PosInf\<rparr>))"
  by (simp add: alert_eval_defs sample_defs)

section \<open>Reminders\<close>

lemma reminder_loop_append:
  "reminder_loop lib now us (xs @ ys) = reminder_loop lib now us xs @ reminder_loop lib now us ys"
  by (induction xs) simp_all

lemma check_booking_raise_no_events:
  "snd (check_booking lib now us b) = Some err \<Longrightarrow> fst (check_booking lib now us b) = []"
  by (auto simp: check_booking_def flight_reminder_def hotel_reminder_def inner_except_def
      split: option.splits BookingType.splits if_splits sum.splits pyval.splits)

lemma days_floor:
  fixes D :: int
  assumes "0 < D"
  shows "((day * D - now) div D = 1) =
         (if now mod D = 0 then day = now div D + 1 else day = now div D + 2)"
proof -
  have "(day * D - now) div D = day + (- now) div D"
    using assms by (metis div_mult_self2 less_irrefl uminus_add_conv_diff mult.commute)
  also have "(- now) div D = (if now mod D = 0 then - (now div D) else - (now div D) - 1)"
    using assms by (simp add: zdiv_zminus1_eq_if)
  finally show ?thesis by auto
qed

text \<open>
  With the check-in date parsed to a day, the hotel reminder is sent exactly when that
  day is the day after today and it is midnight sharp, or that day is two days after
  today at any other time of day.
\<close>

lemma hotel_reminder_sent_iff:
  assumes "map_of (booking_data b) ''checkin_date'' = Some (PyStr s)" and "s \<noteq> []"
      and "strptime_ymd lib s = Inr day"
  shows "(fst (hotel_reminder lib now b lang) \<noteq> []) =
         (if now mod usec_per_day = 0 then day = now div usec_per_day + 1
          else day = now div usec_per_day + 2)"
proof -
  have "0 < usec_per_day" by (simp add: usec_per_day_def)
  from days_floor [OF this, of day now] assms show ?thesis
    by (simp add: hotel_reminder_def days_until_checkin_def)
qed

text \<open>
  Claim C2. The claim says that the reminder goes out exactly when the check-in date is
  tomorrow, at every time of day. At 10:00 on 1 June 2025 a booking with check-in on
  2 June gets no reminder and a booking with check-in on 3 June gets one.
\<close>

theorem hotel_reminder_is_a_day_late:
  "fst (check_booking sample_lib (20240 * usec_per_day + 10 * usec_per_hour) [sample_user]
          (hotel_booking (PyStr ''2025-06-02''))) = [] \<and>
   fst (check_booking sample_lib (20240 * usec_per_day + 10 * usec_per_hour) [sample_user]
          (hotel_booking (PyStr ''2025-06-03'')))
     = [HotelReminderSent 7 (PyStr ''Skylight Hotel'') ''am'']"
  by (simp add: reminder_eval_defs sample_booking_defs)

text \<open>
  A departure time that parses to a naive datetime is reminded exactly in the window of
  23 to 25 hours, both ends included; one that parses to an aware datetime never is.
\<close>

lemma naive_flight_reminder_sent_iff:
  assumes "map_of (booking_data b) ''departure_time'' = Some (PyStr s)" and "s \<noteq> []"
      and "fromisoformat lib (replace_Z s) = Inr (Naive t)"
  shows "(fst (flight_reminder lib now b lang) \<noteq> []) =
         (23 * usec_per_hour \<le> t - now \<and> t - now \<le> 25 * usec_per_hour)"
proof -
  have "(23 \<le> (of_int (t - now) :: rat) / of_int usec_per_hour) = (23 * usec_per_hour \<le> t - now)"
    unfolding usec_per_hour_def by (simp add: le_divide_eq) linarith
  moreover have "((of_int (t - now) :: rat) / of_int usec_per_hour \<le> 25) = (t - now \<le> 25 * usec_per_hour)"
    unfolding usec_per_hour_def by (simp add: divide_le_eq) linarith
  ultimately show ?thesis
    using assms by (simp add: flight_reminder_def hours_until_flight_def)
qed

lemma aware_flight_never_reminded:
  assumes "map_of (booking_data b) ''departure_time'' = Some (PyStr s)"
      and "fromisoformat lib (replace_Z s) = Inr (Aware t)"
  shows "flight_reminder lib now b lang = ([], None)"
  using assms by (simp add: flight_reminder_def hours_until_flight_def inner_except_def)

text \<open>
  Claim C6. The claim says that every parseable departure time within 23 to 25 hours is
  reminded. The departure times of the search results end in \<^verbatim>\<open>Z\<close>; line 43 turns the
  \<^verbatim>\<open>Z\<close> into an offset, the parsed datetime is aware, and its difference with the naive
  \<^verbatim>\<open>datetime.now()\<close> raises the TypeError that line 57 catches. Such a booking gets no
  reminder at any time, while the same departure written without the \<^verbatim>\<open>Z\<close> gets one
  24 hours ahead.
\<close>

theorem utc_departure_is_never_reminded:
  "(\<forall>now. check_booking sample_lib now [sample_user]
             (flight_booking (PyStr ''2025-06-02T08:00:00Z'')) = ([], None)) \<and>
   check_booking sample_lib (20240 * usec_per_day + 8 * usec_per_hour) [sample_user]
       (flight_booking (PyStr ''2025-06-02T08:00:00''))
     = ([FlightReminderSent 7 (PyStr ''NBO'') 24 ''am''], None)"
  by (simp add: reminder_eval_defs sample_booking_defs)

text \<open>
  Claim C10. A booking whose owner has no user record causes no reminder and no
  exception, and the loop goes on: the reminders of the tick are those of the bookings
  before it followed by those of the bookings after it.
\<close>

theorem booking_without_user_is_skipped:
  assumes "find_user us (booking_user_id b) = None"
  shows "check_booking lib now us b = ([], None) \<and>
         reminder_loop lib now us (pre @ b # post) =
           reminder_loop lib now us pre @ reminder_loop lib now us post \<and>
         (\<forall>d. users d = us \<and> completed_bookings d = pre @ b # post \<longrightarrow>
            send_reminders lib now d =
              reminder_loop lib now us pre @ reminder_loop lib now us post)"
  using assms
  by (simp add: check_booking_def reminder_loop_append send_reminders_def)

theorem booking_without_user_witness:
  "find_user [sample_user] (booking_user_id orphan_booking) = None \<and>
   check_booking sample_lib (20240 * usec_per_day) [sample_user] orphan_booking = ([], None) \<and>
   send_reminders sample_lib (20240 * usec_per_day)
       \<lparr>alerts = [], users = [sample_user],
        bookings = [orphan_booking, hotel_booking (PyStr ''2025-06-02'')]\<rparr>
     = [HotelReminderSent 7 (PyStr ''Skylight Hotel'') ''am'']"
proof -
  have nouser: "find_user [sample_user] (booking_user_id orphan_booking) = None"
    by (simp add: find_user_def orphan_booking_def sample_booking_defs)
  have comp: "completed_bookings \<lparr>alerts = [], users = [sample_user],
        bookings = [orphan_booking, hotel_booking (PyStr ''2025-06-02'')]\<rparr>
      = [] @ orphan_booking # [hotel_booking (PyStr ''2025-06-02'')]"
    by (simp add: completed_bookings_def orphan_booking_def sample_booking_defs)
  have rest: "reminder_loop sample_lib (20240 * usec_per_day) [sample_user]
        [hotel_booking (PyStr ''2025-06-02'')]
      = [HotelReminderSent 7 (PyStr ''Skylight Hotel'') ''am'']"
    by (simp add: reminder_eval_defs sample_booking_defs)
  note inst = booking_without_user_is_skipped
    [OF nouser, of sample_lib "20240 * usec_per_day" "[]" "[hotel_booking (PyStr ''2025-06-02'')]"]
  from inst comp rest have "send_reminders sample_lib (20240 * usec_per_day)
       \<lparr>alerts = [], users = [sample_user],
        bookings = [orphan_booking, hotel_booking (PyStr ''2025-06-02'')]\<rparr>
     = [HotelReminderSent 7 (PyStr ''Skylight Hotel'') ''am'']"
    by simp
  with inst nouser show ?thesis by blast
qed

section \<open>One failing item\<close>

lemma guarded_alert_raise:
  "snd (monitor_alert e now us a) = Inl err \<Longrightarrow>
     guarded_alert e now us a = (a, fst (monitor_alert e now us a))"
  by (cases "monitor_alert e now us a") (simp add: guarded_alert_def)

lemma unparseable_date_no_reminder:
  "map_of (booking_data b) ''checkin_date'' = Some (PyStr s) \<Longrightarrow>
   strptime_ymd lib s = Inl ValueError \<Longrightarrow> hotel_reminder lib now b lang = ([], None)"
  "map_of (booking_data b) ''departure_time'' = Some (PyStr s) \<Longrightarrow>
   fromisoformat lib (replace_Z s) = Inl ValueError \<Longrightarrow> flight_reminder lib now b lang = ([], None)"
  by (simp_all add: hotel_reminder_def flight_reminder_def days_until_checkin_def
      hours_until_flight_def inner_except_def)

text \<open>
  Claim C7. When the evaluation of an alert raises, the loop leaves that alert as it was
  and evaluates the alerts before and after it as it would without it: each later alert
  ends as its own evaluation leaves it. In a tick with alert monitoring enabled the
  events are those of the Active alerts before the raising one, what the raising one
  did before it raised, and those of the Active alerts after it; the row of the raising
  alert is unchanged and every other Active row holds what its own evaluation leaves.
  When the evaluation of a booking raises, the reminders of the loop and of the tick are
  those of the other Completed bookings. A date that does not parse raises inside the
  inner handler, which returns without a reminder and without an exception.
\<close>

theorem failing_item_is_skipped_alone:
  "(snd (monitor_alert e now us a) = Inl err \<longrightarrow>
      monitor_loop e now us (pre @ a # post) =
        (fst (monitor_loop e now us pre) @ a # fst (monitor_loop e now us post),
         snd (monitor_loop e now us pre) @ fst (monitor_alert e now us a) @
           snd (monitor_loop e now us post)) \<and>
      (\<forall>j < length post.
         fst (monitor_loop e now us (pre @ a # post)) ! (Suc (length pre + j)) =
           fst (guarded_alert e now us (post ! j)))) \<and>
   (ENABLE_PRICE_ALERTS e \<and> active_alerts d = pre @ a # post \<and>
    snd (monitor_alert e now (users d) a) = Inl err \<longrightarrow>
      snd (monitor_prices e now d) =
        snd (monitor_loop e now (users d) pre) @ fst (monitor_alert e now (users d) a) @
          snd (monitor_loop e now (users d) post)) \<and>
   (ENABLE_PRICE_ALERTS e \<longrightarrow>
      (\<forall>i < length (alerts d).
         status (alerts d ! i) = ACTIVE \<longrightarrow>
           alerts (fst (monitor_prices e now d)) ! i =
             fst (guarded_alert e now (users d) (alerts d ! i)) \<and>
           (snd (monitor_alert e now (users d) (alerts d ! i)) = Inl err \<longrightarrow>
              alerts (fst (monitor_prices e now d)) ! i = alerts d ! i))) \<and>
   (snd (check_booking lib now us b) = Some err \<longrightarrow>
      reminder_loop lib now us (bpre @ b # bpost) =
        reminder_loop lib now us bpre @ reminder_loop lib now us bpost) \<and>
   (completed_bookings d = bpre @ b # bpost \<and>
    snd (check_booking lib now (users d) b) = Some err \<longrightarrow>
      send_reminders lib now d =
        reminder_loop lib now (users d) bpre @ reminder_loop lib now (users d) bpost) \<and>
   (map_of (booking_data b) ''checkin_date'' = Some (PyStr s) \<and>
    strptime_ymd lib s = Inl ValueError \<longrightarrow>
      hotel_reminder lib now b lang = ([], None)) \<and>
   (map_of (booking_data b) ''departure_time'' = Some (PyStr s) \<and>
    fromisoformat lib (replace_Z s) = Inl ValueError \<longrightarrow>
      flight_reminder lib now b lang = ([], None))"
proof (intro conjI impI allI)
  assume r: "snd (monitor_alert e now us a) = Inl err"
  show "monitor_loop e now us (pre @ a # post) =
        (fst (monitor_loop e now us pre) @ a # fst (monitor_loop e now us post),
         snd (monitor_loop e now us pre) @ fst (monitor_alert e now us a) @
           snd (monitor_loop e now us post))"
    by (simp add: monitor_loop_eq guarded_alert_raise [OF r])
next
  fix j assume "j < length post"
  then show "fst (monitor_loop e now us (pre @ a # post)) ! (Suc (length pre + j)) =
           fst (guarded_alert e now us (post ! j))"
    by (simp add: monitor_loop_eq nth_append)
next
  assume h: "ENABLE_PRICE_ALERTS e \<and> active_alerts d = pre @ a # post \<and>
    snd (monitor_alert e now (users d) a) = Inl err"
  then have r: "snd (monitor_alert e now (users d) a) = Inl err" by simp
  from h show "snd (monitor_prices e now d) =
        snd (monitor_loop e now (users d) pre) @ fst (monitor_alert e now (users d) a) @
          snd (monitor_loop e now (users d) post)"
    by (simp add: monitor_prices_events monitor_loop_eq guarded_alert_raise [OF r])
next
  fix i
  assume en: "ENABLE_PRICE_ALERTS e" and i: "i < length (alerts d)"
     and act: "status (alerts d ! i) = ACTIVE"
  then show own: "alerts (fst (monitor_prices e now d)) ! i =
             fst (guarded_alert e now (users d) (alerts d ! i))"
    by (simp add: monitor_prices_alerts)
  assume r: "snd (monitor_alert e now (users d) (alerts d ! i)) = Inl err"
  show "alerts (fst (monitor_prices e now d)) ! i = alerts d ! i"
    unfolding own by (simp add: guarded_alert_raise [OF r])
next
  assume r: "snd (check_booking lib now us b) = Some err"
  show "reminder_loop lib now us (bpre @ b # bpost) =
        reminder_loop lib now us bpre @ reminder_loop lib now us bpost"
    by (simp add: reminder_loop_append check_booking_raise_no_events [OF r])
next
  assume h: "completed_bookings d = bpre @ b # bpost \<and>
    snd (check_booking lib now (users d) b) = Some err"
  then have r: "snd (check_booking lib now (users d) b) = Some err" by simp
  from h show "send_reminders lib now d =
        reminder_loop lib now (users d) bpre @ reminder_loop lib now (users d) bpost"
    by (simp add: send_reminders_def reminder_loop_append check_booking_raise_no_events [OF r])
next
  assume "map_of (booking_data b) ''checkin_date'' = Some (PyStr s) \<and>
          strptime_ymd lib s = Inl ValueError"
  then show "hotel_reminder lib now b lang = ([], None)"
    by (simp add: unparseable_date_no_reminder)
next
  assume "map_of (booking_data b) ''departure_time'' = Some (PyStr s) \<and>
          fromisoformat lib (replace_Z s) = Inl ValueError"
  then show "flight_reminder lib now b lang = ([], None)"
    by (simp add: unparseable_date_no_reminder)
qed

theorem failing_item_witness:
  "snd (monitor_alert (hotels_down_env [[(''price_usd'', Fin 95)]]) 0 [sample_user]
          sample_hotel_alert) = Inl RequestError \<and>
   monitor_loop (hotels_down_env [[(''price_usd'', Fin 95)]]) 0 [sample_user]
       [sample_hotel_alert, sample_alert]
     = ([sample_hotel_alert,
         sample_alert\<lparr>current_price := Some (Fin (10545 / 2)), status := TRIGGERED,
           triggered_at := Some 0\<rparr>],
        [SearchHotels sample_hotel_query, SearchFlights sample_query,
         PriceAlertSent 7 ''Flight'' (Fin (10545 / 2)) ''am'']) \<and>
   snd (monitor_prices (hotels_down_env [[(''price_usd'', Fin 95)]]) 0 failing_db)
     = [SearchHotels sample_hotel_query, SearchFlights sample_query,
        PriceAlertSent 7 ''Flight'' (Fin (10545 / 2)) ''am''] \<and>
   alerts (fst (monitor_prices (hotels_down_env [[(''price_usd'', Fin 95)]]) 0 failing_db)) ! 0
     = sample_hotel_alert \<and>
   alerts (fst (monitor_prices (hotels_down_env [[(''price_usd'', Fin 95)]]) 0 failing_db)) ! 1
     = sample_alert\<lparr>current_price := Some (Fin (10545 / 2)), status := TRIGGERED,
         triggered_at := Some 0\<rparr> \<and>
   snd (check_booking sample_lib (20240 * usec_per_day) [sample_user]
          (flight_booking (PyInt 1748851200))) = Some AttributeError \<and>
   reminder_loop sample_lib (20240 * usec_per_day) [sample_user]
       [flight_booking (PyInt 1748851200), hotel_booking (PyStr ''2025-06-02'')]
     = [HotelReminderSent 7 (PyStr ''Skylight Hotel'') ''am''] \<and>
   send_reminders sample_lib (20240 * usec_per_day) failing_db
     = [HotelReminderSent 7 (PyStr ''Skylight Hotel'') ''am''] \<and>
   strptime_ymd sample_lib ''02/06/2025'' = Inl ValueError \<and>
   hotel_reminder sample_lib (20240 * usec_per_day) (hotel_booking (PyStr ''02/06/2025'')) ''am''
     = ([], None) \<and>
   fromisoformat sample_lib (replace_Z ''tomorrow'') = Inl ValueError \<and>
   flight_reminder sample_lib (20240 * usec_per_day) (flight_booking (PyStr ''tomorrow'')) ''am''
     = ([], None)"
proof -
  let ?e = "hotels_down_env [[(''price_usd'', Fin 95)]]"
  let ?now = "20240 * usec_per_day"
  let ?trig = "sample_alert\<lparr>current_price := Some (Fin (10545 / 2)), status := TRIGGERED,
            triggered_at := Some 0\<rparr>"
  have a_raises: "snd (monitor_alert ?e 0 [sample_user] sample_hotel_alert) = Inl RequestError"
    by (simp add: alert_eval_defs sample_defs hotels_down_env_def sample_hotel_alert_def)
  have a_events: "fst (monitor_alert ?e 0 [sample_user] sample_hotel_alert)
      = [SearchHotels sample_hotel_query]"
    by (simp add: alert_eval_defs sample_defs hotels_down_env_def sample_hotel_alert_def
        sample_hotel_query_def)
  have later_own: "guarded_alert ?e 0 [sample_user] sample_alert
      = (?trig, [SearchFlights sample_query, PriceAlertSent 7 ''Flight'' (Fin (10545 / 2)) ''am''])"
    by (simp add: alert_eval_defs sample_defs hotels_down_env_def)
  then have later: "monitor_loop ?e 0 [sample_user] [sample_alert]
      = ([?trig],
         [SearchFlights sample_query, PriceAlertSent 7 ''Flight'' (Fin (10545 / 2)) ''am''])"
    by simp
  have en: "ENABLE_PRICE_ALERTS ?e"
    by (simp add: hotels_down_env_def fixed_env_def)
  have us: "users failing_db = [sample_user]"
    by (simp add: failing_db_def)
  have act: "active_alerts failing_db = [] @ sample_hotel_alert # [sample_alert]"
    by (simp add: active_alerts_def failing_db_def sample_hotel_alert_def sample_alert_def)
  have rows: "alerts failing_db ! 0 = sample_hotel_alert" "alerts failing_db ! 1 = sample_alert"
    "0 < length (alerts failing_db)" "1 < length (alerts failing_db)"
    "status (alerts failing_db ! 0) = ACTIVE" "status (alerts failing_db ! 1) = ACTIVE"
    by (simp_all add: failing_db_def sample_hotel_alert_def sample_alert_def)
  have b_raises: "snd (check_booking sample_lib ?now [sample_user]
          (flight_booking (PyInt 1748851200))) = Some AttributeError"
    by (simp add: reminder_eval_defs sample_booking_defs)
  have b_later: "reminder_loop sample_lib ?now [sample_user] [hotel_booking (PyStr ''2025-06-02'')]
      = [HotelReminderSent 7 (PyStr ''Skylight Hotel'') ''am'']"
    by (simp add: reminder_eval_defs sample_booking_defs)
  have comp: "completed_bookings failing_db
      = [] @ flight_booking (PyInt 1748851200) # [hotel_booking (PyStr ''2025-06-02'')]"
    by (simp add: completed_bookings_def failing_db_def flight_booking_def hotel_booking_def)
  have h_date: "map_of (booking_data (hotel_booking (PyStr ''02/06/2025''))) ''checkin_date''
      = Some (PyStr ''02/06/2025'')"
    by (simp add: hotel_booking_def)
  have h_parse: "strptime_ymd sample_lib ''02/06/2025'' = Inl ValueError"
    by (simp add: sample_lib_def)
  have f_date: "map_of (booking_data (flight_booking (PyStr ''tomorrow''))) ''departure_time''
      = Some (PyStr ''tomorrow'')"
    by (simp add: flight_booking_def)
  have f_parse: "fromisoformat sample_lib (replace_Z ''tomorrow'') = Inl ValueError"
    by (simp add: sample_lib_def replace_Z_def)
  note alert_inst = failing_item_is_skipped_alone
    [where e = ?e and now = 0 and us = "[sample_user]" and a = sample_hotel_alert
       and err = RequestError and pre = "[]" and post = "[sample_alert]" and d = failing_db
       and lib = sample_lib and b = orphan_booking and bpre = "[]" and bpost = "[]"
       and s = "[]" and lang = "[]"]
  note booking_inst = failing_item_is_skipped_alone
    [where e = ?e and now = ?now and us = "[sample_user]" and a = sample_hotel_alert
       and err = AttributeError and pre = "[]" and post = "[]" and d = failing_db
       and lib = sample_lib and b = "flight_booking (PyInt 1748851200)" and bpre = "[]"
       and bpost = "[hotel_booking (PyStr ''2025-06-02'')]" and s = "[]" and lang = "[]"]
  note hotel_inst = failing_item_is_skipped_alone
    [where e = ?e and now = ?now and us = "[sample_user]" and a = sample_hotel_alert
       and err = ValueError and pre = "[]" and post = "[]" and d = failing_db
       and lib = sample_lib and b = "hotel_booking (PyStr ''02/06/2025'')" and bpre = "[]"
       and bpost = "[]" and s = "''02/06/2025''" and lang = "''am''"]
  note flight_inst = failing_item_is_skipped_alone
    [where e = ?e and now = ?now and us = "[sample_user]" and a = sample_hotel_alert
       and err = ValueError and pre = "[]" and post = "[]" and d = failing_db
       and lib = sample_lib and b = "flight_booking (PyStr ''tomorrow'')" and bpre = "[]"
       and bpost = "[]" and s = "''tomorrow''" and lang = "''am''"]
  from alert_inst a_raises
  have "monitor_loop ?e 0 [sample_user] ([] @ sample_hotel_alert # [sample_alert]) =
        (fst (monitor_loop ?e 0 [sample_user] []) @ sample_hotel_alert #
           fst (monitor_loop ?e 0 [sample_user] [sample_alert]),
         snd (monitor_loop ?e 0 [sample_user] []) @
           fst (monitor_alert ?e 0 [sample_user] sample_hotel_alert) @
           snd (monitor_loop ?e 0 [sample_user] [sample_alert]))"
    by blast
  then have c1: "monitor_loop ?e 0 [sample_user] [sample_hotel_alert, sample_alert]
     = ([sample_hotel_alert, ?trig],
        [SearchHotels sample_hotel_query, SearchFlights sample_query,
         PriceAlertSent 7 ''Flight'' (Fin (10545 / 2)) ''am''])"
    by (simp only: a_events later monitor_loop.simps(1) append.simps fst_conv snd_conv)
  have a_raises_d: "snd (monitor_alert ?e 0 (users failing_db) sample_hotel_alert) = Inl RequestError"
    using a_raises us by simp
  from alert_inst en act a_raises_d
  have "snd (monitor_prices ?e 0 failing_db) =
        snd (monitor_loop ?e 0 (users failing_db) []) @
        fst (monitor_alert ?e 0 (users failing_db) sample_hotel_alert) @
        snd (monitor_loop ?e 0 (users failing_db) [sample_alert])"
    by blast
  then have t1: "snd (monitor_prices ?e 0 failing_db)
     = [SearchHotels sample_hotel_query, SearchFlights sample_query,
        PriceAlertSent 7 ''Flight'' (Fin (10545 / 2)) ''am'']"
    by (simp only: us a_events later monitor_loop.simps(1) append.simps fst_conv snd_conv)
  have row0_raises:
    "snd (monitor_alert ?e 0 (users failing_db) (alerts failing_db ! 0)) = Inl RequestError"
    using a_raises us rows(1) by simp
  from alert_inst en rows(3,5) row0_raises
  have "alerts (fst (monitor_prices ?e 0 failing_db)) ! 0 = alerts failing_db ! 0"
    by blast
  with rows(1) have t2: "alerts (fst (monitor_prices ?e 0 failing_db)) ! 0 = sample_hotel_alert"
    by simp
  from alert_inst en rows(4,6)
  have "alerts (fst (monitor_prices ?e 0 failing_db)) ! 1 =
          fst (guarded_alert ?e 0 (users failing_db) (alerts failing_db ! 1))"
    by blast
  then have t3: "alerts (fst (monitor_prices ?e 0 failing_db)) ! 1 = ?trig"
    by (simp only: us rows(2) later_own fst_conv)
  from booking_inst b_raises
  have "reminder_loop sample_lib ?now [sample_user]
          ([] @ flight_booking (PyInt 1748851200) # [hotel_booking (PyStr ''2025-06-02'')]) =
        reminder_loop sample_lib ?now [sample_user] [] @
        reminder_loop sample_lib ?now [sample_user] [hotel_booking (PyStr ''2025-06-02'')]"
    by blast
  then have c2: "reminder_loop sample_lib ?now [sample_user]
       [flight_booking (PyInt 1748851200), hotel_booking (PyStr ''2025-06-02'')]
     = [HotelReminderSent 7 (PyStr ''Skylight Hotel'') ''am'']"
    by (simp only: b_later reminder_loop.simps(1) append.simps)
  have b_raises_d: "snd (check_booking sample_lib ?now (users failing_db)
          (flight_booking (PyInt 1748851200))) = Some AttributeError"
    using b_raises us by simp
  from booking_inst comp b_raises_d
  have "send_reminders sample_lib ?now failing_db =
        reminder_loop sample_lib ?now (users failing_db) [] @
        reminder_loop sample_lib ?now (users failing_db) [hotel_booking (PyStr ''2025-06-02'')]"
    by blast
  then have t4: "send_reminders sample_lib ?now failing_db
     = [HotelReminderSent 7 (PyStr ''Skylight Hotel'') ''am'']"
    by (simp only: us b_later reminder_loop.simps(1) append.simps)
  have c3: "hotel_reminder sample_lib ?now (hotel_booking (PyStr ''02/06/2025'')) ''am'' = ([], None)"
    using hotel_inst h_date h_parse by blast
  have c4: "flight_reminder sample_lib ?now (flight_booking (PyStr ''tomorrow'')) ''am'' = ([], None)"
    using flight_inst f_date f_parse by blast
  have t1_eval: "snd (monitor_prices ?e 0 failing_db)
     = [SearchHotels sample_hotel_query, SearchFlights sample_query,
        PriceAlertSent 7 ''Flight'' (Fin (10545 / 2)) ''am'']"
    by (simp add: monitor_prices_def active_alerts_def failing_db_def alert_eval_defs
        sample_defs hotels_down_env_def sample_hotel_alert_def sample_hotel_query_def)
  have t4_eval: "send_reminders sample_lib ?now failing_db
     = [HotelReminderSent 7 (PyStr ''Skylight Hotel'') ''am'']"
    by (simp add: send_reminders_def completed_bookings_def failing_db_def reminder_eval_defs
        sample_booking_defs)
  from a_raises c1 t1 t1_eval t2 t3 b_raises c2 t4 t4_eval h_parse c3 f_parse c4
  show ?thesis by blast
qed

section \<open>The scheduler\<close>





end
